theory Spec2Isabelle
  imports Main
begin

section \<open>The browser session manager of claudetool/browse/browse.go\<close>

text \<open>
  The Go type \<^verbatim>\<open>BrowseTools\<close> owns one lazily started browser (an allocator context and a
  browser context, each with its cancel function), an idle timer, the captured console
  events and the registry of saved screenshots. Its methods mutate the struct and call
  into chromedp, the operating system and the Go standard library.

  The embedding passes the struct explicitly, as a record. What the methods ask of the
  outside is appended to a trace of effects, and every context or timer the outside hands
  back is a fresh number taken from a counter. What the outside answers (whether the
  browser starts, whether a file can be written, what a URL parses to) is a parameter of
  the function that asks. The mutexes are not modelled: each method body runs as one
  step, which is what holding the lock gives it. The parent context \<^verbatim>\<open>ctx\<close> of the struct
  and the calls of \<^verbatim>\<open>log.Printf\<close> are left out: no result depends on them.
\<close>

subsection \<open>Data\<close>

type_synonym handle = nat
type_synonym timer = nat
type_synonym duration = int
type_synonym timestamp = int
type_synonym bytes = "char list"

text \<open>\<^verbatim>\<open>time.Duration\<close> counts nanoseconds.\<close>

definition Second :: duration where
  "Second = 1000000000"

definition Minute :: duration where
  "Minute = 60 * Second"

definition ScreenshotDir :: string where
  "ScreenshotDir = ''/tmp/shelley-screenshots''"

definition DefaultIdleTimeout :: duration where
  "DefaultIdleTimeout = 30 * Minute"

text \<open>
  The calls that leave the manager. \<open>NewContext c a\<close> is the browser context \<open>c\<close> derived
  from the allocator context \<open>a\<close>; \<open>AllocCancel a\<close> and \<open>BrowserCancel c\<close> are the calls of
  the two cancel functions.
\<close>

datatype effect =
    MkdirAll string
  | NewExecAllocator handle
  | NewContext handle handle
  | ListenTarget handle
  | AllocCancel handle
  | BrowserCancel handle
  | TimerStop timer
  | AfterFunc timer duration
  | WriteFile string bytes

record world =
  fresh :: nat
  effects :: "effect list"

definition emit :: "effect \<Rightarrow> world \<Rightarrow> world" where
  "emit e w = w\<lparr>effects := effects w @ [e]\<rparr>"

definition alloc :: "world \<Rightarrow> nat \<times> world" where
  "alloc w = (fresh w, w\<lparr>fresh := Suc (fresh w)\<rparr>)"

record 'e BrowseTools =
  allocCtx :: "handle option"
  allocCancel :: "handle option"
  browserCtx :: "handle option"
  browserCtxCancel :: "handle option"
  screenshots :: "string \<rightharpoonup> timestamp"
  consoleLogs :: "'e list"
  maxConsoleLogs :: int
  idleTimeout :: duration
  idleTimer :: "timer option"
  maxImageDimension :: int

type_synonym 'e state = "'e BrowseTools \<times> world"

text \<open>The two steps of the startup that can fail: \<open>None\<close> is Go's nil error.\<close>

record startup =
  runStart :: "string option"
  runViewport :: "string option"

subsection \<open>Construction\<close>

definition NewBrowseTools :: "duration \<Rightarrow> int \<Rightarrow> world \<Rightarrow> 'e state" where
  "NewBrowseTools idle maxDim w =
     (\<lparr>allocCtx = None, allocCancel = None, browserCtx = None, browserCtxCancel = None,
       screenshots = Map.empty, consoleLogs = [], maxConsoleLogs = 100,
       idleTimeout = (if idle \<le> 0 then DefaultIdleTimeout else idle),
       idleTimer = None, maxImageDimension = maxDim\<rparr>,
      emit (MkdirAll ScreenshotDir) w)"

subsection \<open>The session: GetBrowserContext, the idle timer, Close\<close>

definition resetIdleTimerLocked :: "'e state \<Rightarrow> 'e state" where
  "resetIdleTimerLocked s =
     (case s of (b, w) \<Rightarrow>
        let w1 = (case idleTimer b of Some t \<Rightarrow> emit (TimerStop t) w | None \<Rightarrow> w);
            (t', w2) = alloc w1
        in (b\<lparr>idleTimer := Some t'\<rparr>, emit (AfterFunc t' (idleTimeout b)) w2))"

definition GetBrowserContext :: "startup \<Rightarrow> 'e state \<Rightarrow> (string + handle) \<times> 'e state" where
  "GetBrowserContext st s =
     (case s of (b, w) \<Rightarrow>
        (case browserCtx b of
           Some c \<Rightarrow> (Inr c, resetIdleTimerLocked (b, w))
         | None \<Rightarrow>
             let (a, w1) = alloc w;
                 w2 = emit (NewExecAllocator a) w1;
                 (c, w3) = alloc w2;
                 w4 = emit (NewContext c a) w3;
                 w5 = emit (ListenTarget c) w4
             in (case runStart st of
                   Some err \<Rightarrow>
                     (Inl (''failed to start browser (please apt get chromium or equivalent): '' @ err),
                      (b, emit (AllocCancel a) w5))
                 | None \<Rightarrow>
                     (case runViewport st of
                        Some err \<Rightarrow>
                          (Inl (''failed to set default viewport: '' @ err),
                           (b, emit (AllocCancel a) (emit (BrowserCancel c) w5)))
                      | None \<Rightarrow>
                          (case resetIdleTimerLocked
                                  (b\<lparr>allocCtx := Some a, allocCancel := Some a,
                                     browserCtx := Some c, browserCtxCancel := Some c\<rparr>, w5) of
                             (b', w') \<Rightarrow> (Inr c, (b', w')))))))"

definition closeBrowserLocked :: "'e state \<Rightarrow> 'e state" where
  "closeBrowserLocked s =
     (case s of (b, w) \<Rightarrow>
        let (b1, w1) = (case idleTimer b of
                          Some t \<Rightarrow> (b\<lparr>idleTimer := None\<rparr>, emit (TimerStop t) w)
                        | None \<Rightarrow> (b, w));
            (b2, w2) = (case browserCtxCancel b1 of
                          Some c \<Rightarrow> (b1\<lparr>browserCtxCancel := None\<rparr>, emit (BrowserCancel c) w1)
                        | None \<Rightarrow> (b1, w1));
            (b3, w3) = (case allocCancel b2 of
                          Some a \<Rightarrow> (b2\<lparr>allocCancel := None\<rparr>, emit (AllocCancel a) w2)
                        | None \<Rightarrow> (b2, w2))
        in (b3\<lparr>browserCtx := None, allocCtx := None\<rparr>, w3))"

definition idleShutdown :: "'e state \<Rightarrow> 'e state" where
  "idleShutdown s =
     (case s of (b, w) \<Rightarrow>
        if browserCtx b = None then (b, w) else closeBrowserLocked (b, w))"

definition Close :: "'e state \<Rightarrow> 'e state" where
  "Close s = closeBrowserLocked s"

text \<open>
  The calls a client or the timer can make on the session, and a run of them in order.
  Each \<open>GetBrowserContext\<close> comes with the answers chromedp gives to that call.
\<close>

datatype call = CallGet startup | CallClose | CallIdle

fun step :: "call \<Rightarrow> 'e state \<Rightarrow> 'e state" where
  "step (CallGet st) s = snd (GetBrowserContext st s)"
| "step CallClose s = Close s"
| "step CallIdle s = idleShutdown s"

fun run :: "call list \<Rightarrow> 'e state \<Rightarrow> 'e state" where
  "run [] s = s"
| "run (c # cs) s = run cs (step c s)"

text \<open>The session is absent, or it is whole.\<close>

definition absent :: "'e BrowseTools \<Rightarrow> bool" where
  "absent b \<longleftrightarrow>
     allocCtx b = None \<and> allocCancel b = None \<and> browserCtx b = None \<and> browserCtxCancel b = None"

definition whole :: "'e BrowseTools \<Rightarrow> bool" where
  "whole b \<longleftrightarrow>
     allocCtx b \<noteq> None \<and> allocCancel b = allocCtx b \<and>
     browserCtx b \<noteq> None \<and> browserCtxCancel b = browserCtx b"

text \<open>
  Go's contexts form a tree: cancelling a context cancels every context derived from it.
  A handle counts as cancelled in a trace when its own cancel function was called, or the
  cancel function of the allocator context it was derived from.
\<close>

definition cancelled :: "effect list \<Rightarrow> handle \<Rightarrow> bool" where
  "cancelled tr h \<longleftrightarrow>
     AllocCancel h \<in> set tr \<or> BrowserCancel h \<in> set tr \<or>
     list_ex (\<lambda>e. case e of NewContext c a \<Rightarrow> c = h \<and> AllocCancel a \<in> set tr | _ \<Rightarrow> False) tr"

definition startupFails :: "startup \<Rightarrow> bool" where
  "startupFails st \<longleftrightarrow> runStart st \<noteq> None \<or> runViewport st \<noteq> None"

subsection \<open>Console events\<close>

text \<open>
  \<^verbatim>\<open>captureConsoleLog\<close> appends, then keeps the last \<^verbatim>\<open>maxConsoleLogs\<close> events. The Go slice
  expression \<^verbatim>\<open>logs[len-max:]\<close> panics when its lower bound is outside \<^verbatim>\<open>0..len\<close>, which
  under the guard \<^verbatim>\<open>len > max\<close> happens exactly for a negative \<^verbatim>\<open>max\<close>. (In 64 bits the
  subtraction can wrap around for such a \<^verbatim>\<open>max\<close>; the bound is then negative and the
  expression panics as well.) The model has the panic as a result.
\<close>

datatype panic = SliceBoundsOutOfRange

definition captureConsoleLog :: "'e \<Rightarrow> 'e BrowseTools \<Rightarrow> panic + 'e BrowseTools" where
  "captureConsoleLog e b =
     (let logs = consoleLogs b @ [e]; n = int (length logs) in
      if n > maxConsoleLogs b then
        (let lo = n - maxConsoleLogs b in
         if lo < 0 \<or> n < lo then Inl SliceBoundsOutOfRange
         else Inr (b\<lparr>consoleLogs := drop (nat lo) logs\<rparr>))
      else Inr (b\<lparr>consoleLogs := logs\<rparr>))"

text \<open>The listener called once per event, in arrival order.\<close>

fun captureAll :: "'e list \<Rightarrow> 'e BrowseTools \<Rightarrow> panic + 'e BrowseTools" where
  "captureAll [] b = Inr b"
| "captureAll (e # es) b =
     (case captureConsoleLog e b of Inl p \<Rightarrow> Inl p | Inr b' \<Rightarrow> captureAll es b')"

subsection \<open>What the tools take and return\<close>

text \<open>
  \<^verbatim>\<open>llm.ToolOut\<close> is an error, or content with an optional display payload. A tool's raw
  JSON input is modelled by what \<^verbatim>\<open>json.Unmarshal\<close> makes of it: \<open>Inl\<close> its error, or
  \<open>Inr\<close> the input struct.
\<close>

datatype Content = Text string | Media string string

datatype display = ScreenshotDisplay string string string string

datatype ToolOut = ErrorToolOut string | ToolOut "Content list" "display option"

record navigateInput =
  URL :: string
  Timeout :: string

record screenshotInput =
  Selector :: string
  Timeout :: string

record recentConsoleLogsInput =
  Limit :: int

text \<open>
  Of a parsed \<^verbatim>\<open>url.URL\<close> the code reads the field \<^verbatim>\<open>Scheme\<close> and the result of the method
  \<^verbatim>\<open>Port()\<close>.
\<close>

record url_URL =
  Scheme :: string
  Port :: string

text \<open>
  The collaborators of the tools: functions of the Go standard library, of chromedp, of
  the uuid and imageutil packages, and the answers of the operating system. They are
  not part of this program; the tools are defined for every behaviour of them.
\<close>

record 'e ext =
  url_Parse :: "string \<Rightarrow> string + url_URL"
  time_ParseDuration :: "string \<Rightarrow> string + duration"
  chromedp_startup :: startup
  chromedp_Navigate :: "handle \<Rightarrow> duration \<Rightarrow> string \<Rightarrow> string option"
  chromedp_Screenshot :: "handle \<Rightarrow> duration \<Rightarrow> string \<Rightarrow> string + bytes"
  chromedp_CaptureScreenshot :: "handle \<Rightarrow> duration \<Rightarrow> string + bytes"
  json_MarshalIndent :: "'e list \<Rightarrow> string + string"
  uuid_New :: string
  os_WriteFile :: "string \<Rightarrow> bytes \<Rightarrow> string option"
  time_Now :: timestamp
  filepath_Join :: "string \<Rightarrow> string \<Rightarrow> string"
  imageutil_ResizeImage :: "bytes \<Rightarrow> int \<Rightarrow> string + (bytes \<times> string \<times> bool)"
  base64_EncodeToString :: "bytes \<Rightarrow> string"
  url_QueryEscape :: "string \<Rightarrow> string"

text \<open>The decimal digits of a length, as \<^verbatim>\<open>%d\<close> prints them.\<close>

definition digit :: "nat \<Rightarrow> char" where
  "digit n = ''0123456789'' ! n"

function Itoa :: "nat \<Rightarrow> string" where
  "Itoa n = (if n < 10 then [digit n] else Itoa (n div 10) @ [digit (n mod 10)])"
  by pat_completeness auto
termination
  by (relation "measure id") auto

subsection \<open>Timeouts\<close>

definition parseTimeout :: "(string \<Rightarrow> string + duration) \<Rightarrow> string \<Rightarrow> duration" where
  "parseTimeout ParseDuration timeout =
     (case ParseDuration timeout of Inl err \<Rightarrow> 15 * Second | Inr dur \<Rightarrow> dur)"

subsection \<open>Navigation\<close>

definition isPort80 :: "(string \<Rightarrow> string + url_URL) \<Rightarrow> string \<Rightarrow> bool" where
  "isPort80 Parse urlStr =
     (case Parse urlStr of
        Inl err \<Rightarrow> False
      | Inr parsedURL \<Rightarrow>
          Port parsedURL = ''80'' \<or> (Port parsedURL = [] \<and> Scheme parsedURL = ''http''))"

definition port80Error :: string where
  "port80Error = ''port 80 is not the port you're looking for--port 80 is the main sketch server''"

definition navigateRun :: "'e ext \<Rightarrow> string + navigateInput \<Rightarrow> 'e state \<Rightarrow> ToolOut \<times> 'e state" where
  "navigateRun X m s =
     (case m of
        Inl err \<Rightarrow> (ErrorToolOut (''invalid input: '' @ err), s)
      | Inr input \<Rightarrow>
          if isPort80 (url_Parse X) (URL input) then (ErrorToolOut port80Error, s)
          else
            (case GetBrowserContext (chromedp_startup X) s of
               (Inl err, s') \<Rightarrow> (ErrorToolOut err, s')
             | (Inr ctx, s') \<Rightarrow>
                 (case chromedp_Navigate X ctx
                         (parseTimeout (time_ParseDuration X) (navigateInput.Timeout input))
                         (URL input) of
                    Some err \<Rightarrow> (ErrorToolOut err, s')
                  | None \<Rightarrow> (ToolOut [Text ''done''] None, s'))))"

subsection \<open>Screenshots\<close>

definition SaveScreenshot :: "'e ext \<Rightarrow> bytes \<Rightarrow> 'e state \<Rightarrow> string \<times> 'e state" where
  "SaveScreenshot X data s =
     (case s of (b, w) \<Rightarrow>
        let id' = uuid_New X;
            filePath = filepath_Join X ScreenshotDir (id' @ ''.png'');
            w1 = emit (WriteFile filePath data) w
        in (case os_WriteFile X filePath data of
              Some err \<Rightarrow> ([], (b, w1))
            | None \<Rightarrow> (id', (b\<lparr>screenshots := (screenshots b)(id' \<mapsto> time_Now X)\<rparr>, w1))))"

definition GetScreenshotPath :: "'e ext \<Rightarrow> string \<Rightarrow> string" where
  "GetScreenshotPath X id' = filepath_Join X ScreenshotDir (id' @ ''.png'')"

definition screenshotRun :: "'e ext \<Rightarrow> string + screenshotInput \<Rightarrow> 'e state \<Rightarrow> ToolOut \<times> 'e state" where
  "screenshotRun X m s =
     (case m of
        Inl err \<Rightarrow> (ErrorToolOut (''invalid input: '' @ err), s)
      | Inr input \<Rightarrow>
          (case GetBrowserContext (chromedp_startup X) s of
             (Inl err, s1) \<Rightarrow> (ErrorToolOut err, s1)
           | (Inr ctx, s1) \<Rightarrow>
               let t = parseTimeout (time_ParseDuration X) (screenshotInput.Timeout input) in
               (case (if Selector input \<noteq> [] then chromedp_Screenshot X ctx t (Selector input)
                      else chromedp_CaptureScreenshot X ctx t) of
                  Inl err \<Rightarrow> (ErrorToolOut err, s1)
                | Inr buf \<Rightarrow>
                    (case SaveScreenshot X buf s1 of
                       (id', s2) \<Rightarrow>
                         if id' = [] then (ErrorToolOut ''failed to save screenshot'', s2)
                         else
                           let screenshotPath = GetScreenshotPath X id' in
                           (case (if maxImageDimension (fst s2) > 0
                                  then imageutil_ResizeImage X buf (maxImageDimension (fst s2))
                                  else Inr (buf, ''png'', False)) of
                              Inl err \<Rightarrow>
                                (ErrorToolOut (''failed to resize screenshot: '' @ err), s2)
                            | Inr (imageData, format, resized) \<Rightarrow>
                                (ToolOut
                                   [Text (''Screenshot taken (saved as '' @ screenshotPath @ '')'' @
                                          (if resized then '' [resized]'' else [])),
                                    Media (''image/'' @ format) (base64_EncodeToString X imageData)]
                                   (Some (ScreenshotDisplay id'
                                      (''/api/read?path='' @ url_QueryEscape X screenshotPath)
                                      screenshotPath (Selector input))),
                                 s2))))))"

subsection \<open>Reading and clearing the console events\<close>

text \<open>
  Lines 686 to 700 of the source: the limit defaults to 100 unless the input gives a
  positive one, and the copy starts at \<^verbatim>\<open>len - limit\<close> when more than \<^verbatim>\<open>limit\<close> events are
  stored.
\<close>

definition recentLogs :: "recentConsoleLogsInput \<Rightarrow> 'e list \<Rightarrow> 'e list" where
  "recentLogs input logs =
     (let limit = (if Limit input > 0 then Limit input else 100);
          start = (if int (length logs) > limit then int (length logs) - limit else 0)
      in drop (nat start) logs)"

definition recentConsoleLogsRun ::
  "'e ext \<Rightarrow> string + recentConsoleLogsInput \<Rightarrow> 'e state \<Rightarrow> ToolOut \<times> 'e state" where
  "recentConsoleLogsRun X m s =
     (case m of
        Inl err \<Rightarrow> (ErrorToolOut (''invalid input: '' @ err), s)
      | Inr input \<Rightarrow>
          (case GetBrowserContext (chromedp_startup X) s of
             (Inl err, s') \<Rightarrow> (ErrorToolOut err, s')
           | (Inr ctx, s') \<Rightarrow>
               let logs = recentLogs input (consoleLogs (fst s')) in
               (case json_MarshalIndent X logs of
                  Inl err \<Rightarrow> (ErrorToolOut (''failed to serialize logs: '' @ err), s')
                | Inr logData \<Rightarrow>
                    (ToolOut
                       [Text (''Retrieved '' @ Itoa (length logs) @ '' console log entries:'' @
                              [CHR 0x0A, CHR 0x0A] @
                              (if length logs = 0 then ''No console logs captured.'' else logData))]
                       None,
                     s'))))"

definition clearConsoleLogsRun :: "'e ext \<Rightarrow> string + unit \<Rightarrow> 'e state \<Rightarrow> ToolOut \<times> 'e state" where
  "clearConsoleLogsRun X m s =
     (case m of
        Inl err \<Rightarrow> (ErrorToolOut (''invalid input: '' @ err), s)
      | Inr input \<Rightarrow>
          (case GetBrowserContext (chromedp_startup X) s of
             (Inl err, s') \<Rightarrow> (ErrorToolOut err, s')
           | (Inr ctx, (b, w)) \<Rightarrow>
               let logCount = length (consoleLogs b) in
               (ToolOut [Text (''Cleared '' @ Itoa logCount @ '' console log entries.'')] None,
                (b\<lparr>consoleLogs := []\<rparr>, w))))"

subsection \<open>An environment to run the tools in\<close>

text \<open>
  One behaviour of the collaborators, for evaluating the tools on concrete inputs: the
  browser starts, pages load, files are written, and the two parsers answer on the few
  strings listed as Go's \<^verbatim>\<open>url.Parse\<close> and \<^verbatim>\<open>time.ParseDuration\<close> do.
\<close>

definition sampleExt :: "nat ext" where
  "sampleExt =
     \<lparr>url_Parse = (\<lambda>s.
         if s = ''http://host'' then Inr \<lparr>Scheme = ''http'', Port = []\<rparr>
         else if s = ''http://host:80/index.html'' then Inr \<lparr>Scheme = ''http'', Port = ''80''\<rparr>
         else if s = ''http://host:8080'' then Inr \<lparr>Scheme = ''http'', Port = ''8080''\<rparr>
         else if s = ''https://host'' then Inr \<lparr>Scheme = ''https'', Port = []\<rparr>
         else Inl ''invalid URL''),
       time_ParseDuration = (\<lambda>s.
         if s = ''1s'' then Inr Second
         else if s = ''2m'' then Inr (2 * Minute)
         else Inl ''time: invalid duration''),
       chromedp_startup = \<lparr>runStart = None, runViewport = None\<rparr>,
       chromedp_Navigate = (\<lambda>c t u. None),
       chromedp_Screenshot = (\<lambda>c t sel. Inr ''PNG''),
       chromedp_CaptureScreenshot = (\<lambda>c t. Inr ''PNG''),
       json_MarshalIndent = (\<lambda>es. Inr (concat (map (\<lambda>e. Itoa e @ '' '') es))),
       uuid_New = ''123e4567-e89b-12d3-a456-426614174000'',
       os_WriteFile = (\<lambda>path data. None),
       time_Now = 1700000000,
       filepath_Join = (\<lambda>dir name. dir @ ''/'' @ name),
       imageutil_ResizeImage = (\<lambda>data maxDim. Inr (data, ''png'', False)),
       base64_EncodeToString = (\<lambda>data. data),
       url_QueryEscape = (\<lambda>s. s)\<rparr>"

definition world0 :: world where
  "world0 = \<lparr>fresh = 0, effects = []\<rparr>"

section \<open>Properties of the session\<close>

lemma closeBrowserLocked_absent: "absent (fst (closeBrowserLocked s))"
  by (cases s) (simp add: closeBrowserLocked_def absent_def Let_def split: option.splits prod.splits)

lemma resetIdleTimerLocked_session:
  "fst (resetIdleTimerLocked (b, w)) =
     b\<lparr>idleTimer := Some (fresh (case idleTimer b of Some t \<Rightarrow> emit (TimerStop t) w | None \<Rightarrow> w))\<rparr>"
  by (simp add: resetIdleTimerLocked_def Let_def alloc_def split: option.splits prod.splits)

lemma GetBrowserContext_inv:
  assumes "absent (fst s) \<or> whole (fst s)"
  shows "absent (fst (snd (GetBrowserContext st s))) \<or> whole (fst (snd (GetBrowserContext st s)))"
  using assms
  by (cases s)
    (auto simp add: GetBrowserContext_def resetIdleTimerLocked_session absent_def whole_def
      Let_def alloc_def split: option.splits prod.splits)

lemma idleShutdown_inv:
  assumes "absent (fst s) \<or> whole (fst s)"
  shows "absent (fst (idleShutdown s)) \<or> whole (fst (idleShutdown s))"
proof (cases s)
  case (Pair b w)
  show ?thesis
  proof (cases "browserCtx b")
    case None
    with Pair assms show ?thesis by (simp add: idleShutdown_def)
  next
    case (Some c)
    with Pair have "idleShutdown s = closeBrowserLocked s" by (simp add: idleShutdown_def)
    then show ?thesis by (simp add: closeBrowserLocked_absent)
  qed
qed

lemma step_inv:
  "absent (fst s) \<or> whole (fst s) \<Longrightarrow> absent (fst (step c s)) \<or> whole (fst (step c s))"
  by (cases c) (simp_all add: GetBrowserContext_inv idleShutdown_inv Close_def closeBrowserLocked_absent)

lemma run_inv:
  "absent (fst s) \<or> whole (fst s) \<Longrightarrow> absent (fst (run cs s)) \<or> whole (fst (run cs s))"
  by (induction cs arbitrary: s) (simp_all add: step_inv)

lemma NewBrowseTools_absent: "absent (fst (NewBrowseTools idle maxDim w))"
  by (simp add: NewBrowseTools_def absent_def)

lemma absent_not_whole: "\<not> (absent b \<and> whole b)"
  by (auto simp add: absent_def whole_def)

text \<open>
  C1. After any sequence of \<^verbatim>\<open>GetBrowserContext\<close> (whatever chromedp answers), \<^verbatim>\<open>Close\<close> and
  \<^verbatim>\<open>idleShutdown\<close> calls on a new manager, the four session fields are all nil, or they
  are all set, to the contexts and cancel functions of one and the same startup; never
  both, and never only some of them.
\<close>

theorem session_absent_or_whole:
  "(absent (fst (run cs (NewBrowseTools idle maxDim w :: 'e state))) \<or>
    whole (fst (run cs (NewBrowseTools idle maxDim w :: 'e state)))) \<and>
   \<not> (absent (fst (run cs (NewBrowseTools idle maxDim w :: 'e state))) \<and>
      whole (fst (run cs (NewBrowseTools idle maxDim w :: 'e state))))"
proof
  show "absent (fst (run cs (NewBrowseTools idle maxDim w :: 'e state))) \<or>
        whole (fst (run cs (NewBrowseTools idle maxDim w :: 'e state)))"
    by (rule run_inv) (simp add: NewBrowseTools_absent)
next
  show "\<not> (absent (fst (run cs (NewBrowseTools idle maxDim w :: 'e state))) \<and>
      whole (fst (run cs (NewBrowseTools idle maxDim w :: 'e state))))"
    by (rule absent_not_whole)
qed

theorem session_absent_or_whole_witness:
  "whole (fst (run [CallGet \<lparr>runStart = None, runViewport = Some ''timeout''\<rparr>,
                    CallGet \<lparr>runStart = None, runViewport = None\<rparr>, CallIdle, CallClose,
                    CallGet \<lparr>runStart = None, runViewport = None\<rparr>]
                 (NewBrowseTools 0 0 \<lparr>fresh = 0, effects = []\<rparr> :: nat state))) \<and>
   absent (fst (run [CallGet \<lparr>runStart = None, runViewport = None\<rparr>, CallIdle,
                     CallGet \<lparr>runStart = Some ''no chromium'', runViewport = None\<rparr>]
                 (NewBrowseTools 0 0 \<lparr>fresh = 0, effects = []\<rparr> :: nat state)))"
  using session_absent_or_whole
    [of "[CallGet \<lparr>runStart = None, runViewport = None\<rparr>]" 0 0 "\<lparr>fresh = 0, effects = []\<rparr>",
     where ?'e = nat]
  by (simp add: NewBrowseTools_def GetBrowserContext_def resetIdleTimerLocked_def
      closeBrowserLocked_def idleShutdown_def Close_def alloc_def emit_def absent_def whole_def
      Let_def)

text \<open>
  C9. \<^verbatim>\<open>Close\<close> and \<^verbatim>\<open>idleShutdown\<close> change nothing of the manager but the idle timer and the
  four session fields: the console events and the screenshot registry are as they were.
\<close>

theorem teardown_frame:
  "fst (Close (b, w)) =
     b\<lparr>idleTimer := None, browserCtxCancel := None, allocCancel := None,
       browserCtx := None, allocCtx := None\<rparr> \<and>
   fst (idleShutdown (b, w)) =
     (if browserCtx b = None then b
      else b\<lparr>idleTimer := None, browserCtxCancel := None, allocCancel := None,
             browserCtx := None, allocCtx := None\<rparr>) \<and>
   consoleLogs (fst (Close (b, w))) = consoleLogs b \<and>
   screenshots (fst (Close (b, w))) = screenshots b \<and>
   consoleLogs (fst (idleShutdown (b, w))) = consoleLogs b \<and>
   screenshots (fst (idleShutdown (b, w))) = screenshots b"
  by (cases b) (simp add: Close_def idleShutdown_def closeBrowserLocked_def Let_def split: option.splits)

lemma GetBrowserContext_start_fails:
  assumes "browserCtx b = None" and "runStart st = Some err"
  shows "GetBrowserContext st (b, w) =
    (Inl (''failed to start browser (please apt get chromium or equivalent): '' @ err),
     (b, \<lparr>fresh = fresh w + 2,
          effects = effects w @ [NewExecAllocator (fresh w), NewContext (Suc (fresh w)) (fresh w),
            ListenTarget (Suc (fresh w)), AllocCancel (fresh w)]\<rparr>))"
  using assms by (simp add: GetBrowserContext_def alloc_def emit_def Let_def)

lemma GetBrowserContext_viewport_fails:
  assumes "browserCtx b = None" and "runStart st = None" and "runViewport st = Some err"
  shows "GetBrowserContext st (b, w) =
    (Inl (''failed to set default viewport: '' @ err),
     (b, \<lparr>fresh = fresh w + 2,
          effects = effects w @ [NewExecAllocator (fresh w), NewContext (Suc (fresh w)) (fresh w),
            ListenTarget (Suc (fresh w)), BrowserCancel (Suc (fresh w)), AllocCancel (fresh w)]\<rparr>))"
  using assms by (simp add: GetBrowserContext_def alloc_def emit_def Let_def)

lemma GetBrowserContext_fresh_startup:
  assumes "browserCtx b = None"
  shows "case GetBrowserContext st (b, w) of (r, (b', w')) \<Rightarrow>
           take 3 (drop (length (effects w)) (effects w')) =
             [NewExecAllocator (fresh w), NewContext (Suc (fresh w)) (fresh w),
              ListenTarget (Suc (fresh w))] \<and>
           (\<not> startupFails st \<longrightarrow>
              r = Inr (Suc (fresh w)) \<and>
              allocCtx b' = Some (fresh w) \<and> allocCancel b' = Some (fresh w) \<and>
              browserCtx b' = Some (Suc (fresh w)) \<and> browserCtxCancel b' = Some (Suc (fresh w)))"
  using assms
  by (simp add: GetBrowserContext_def resetIdleTimerLocked_def alloc_def emit_def Let_def
      startupFails_def split: option.splits prod.splits)

text \<open>
  C2, as the code has it. When the browser does not start, or the default viewport cannot
  be set, \<^verbatim>\<open>GetBrowserContext\<close> returns the wrapped error and leaves the manager as it was, so
  the session fields stay nil. When the viewport step failed, both cancel functions of
  the attempt were called. When the browser did not start, only the allocator's cancel
  function was called; the browser context of the attempt was derived from that allocator
  context, so both contexts of the attempt are cancelled in either case. The next
  \<^verbatim>\<open>GetBrowserContext\<close> creates a new allocator and a new browser context, and on success
  returns and stores those.
\<close>

theorem startup_failure_rollback:
  assumes "browserCtx b = None" and "startupFails st"
  shows "case GetBrowserContext st (b, w) of (r, (b', w')) \<Rightarrow>
           b' = b \<and> fresh w' = fresh w + 2 \<and>
           (case runStart st of
              Some err \<Rightarrow>
                r = Inl (''failed to start browser (please apt get chromium or equivalent): '' @ err) \<and>
                effects w' = effects w @
                  [NewExecAllocator (fresh w), NewContext (Suc (fresh w)) (fresh w),
                   ListenTarget (Suc (fresh w)), AllocCancel (fresh w)]
            | None \<Rightarrow>
                r = Inl (''failed to set default viewport: '' @ the (runViewport st)) \<and>
                effects w' = effects w @
                  [NewExecAllocator (fresh w), NewContext (Suc (fresh w)) (fresh w),
                   ListenTarget (Suc (fresh w)), BrowserCancel (Suc (fresh w)), AllocCancel (fresh w)]) \<and>
           cancelled (effects w') (fresh w) \<and> cancelled (effects w') (Suc (fresh w)) \<and>
           (case GetBrowserContext st2 (b', w') of (r2, (b2, w2)) \<Rightarrow>
              take 3 (drop (length (effects w')) (effects w2)) =
                [NewExecAllocator (fresh w'), NewContext (Suc (fresh w')) (fresh w'),
                 ListenTarget (Suc (fresh w'))] \<and>
              (\<not> startupFails st2 \<longrightarrow>
                 r2 = Inr (Suc (fresh w')) \<and>
                 allocCtx b2 = Some (fresh w') \<and> allocCancel b2 = Some (fresh w') \<and>
                 browserCtx b2 = Some (Suc (fresh w')) \<and> browserCtxCancel b2 = Some (Suc (fresh w'))))"
proof (cases "runStart st")
  case (Some err)
  define w' where "w' = \<lparr>fresh = fresh w + 2,
          effects = effects w @ [NewExecAllocator (fresh w), NewContext (Suc (fresh w)) (fresh w),
            ListenTarget (Suc (fresh w)), AllocCancel (fresh w)]\<rparr>"
  have g: "GetBrowserContext st (b, w) =
      (Inl (''failed to start browser (please apt get chromium or equivalent): '' @ err), (b, w'))"
    unfolding w'_def using assms(1) Some by (rule GetBrowserContext_start_fails)
  have c: "cancelled (effects w') (fresh w) \<and> cancelled (effects w') (Suc (fresh w))"
    by (simp add: cancelled_def w'_def)
  have f: "fresh w' = fresh w + 2" 
    and e: "effects w' = effects w @ [NewExecAllocator (fresh w), NewContext (Suc (fresh w)) (fresh w),
            ListenTarget (Suc (fresh w)), AllocCancel (fresh w)]"
    by (simp_all add: w'_def)
  note n = GetBrowserContext_fresh_startup [OF assms(1), where st = st2 and w = w']
  show ?thesis
    unfolding g prod.case Some option.case using c f e n by blast
next
  case None
  with assms(2) obtain err where v: "runViewport st = Some err"
    by (auto simp add: startupFails_def)
  define w' where "w' = \<lparr>fresh = fresh w + 2,
          effects = effects w @ [NewExecAllocator (fresh w), NewContext (Suc (fresh w)) (fresh w),
            ListenTarget (Suc (fresh w)), BrowserCancel (Suc (fresh w)), AllocCancel (fresh w)]\<rparr>"
  have g: "GetBrowserContext st (b, w) = (Inl (''failed to set default viewport: '' @ err), (b, w'))"
    unfolding w'_def using assms(1) None v by (rule GetBrowserContext_viewport_fails)
  have c: "cancelled (effects w') (fresh w) \<and> cancelled (effects w') (Suc (fresh w))"
    by (simp add: cancelled_def w'_def)
  have f: "fresh w' = fresh w + 2" 
    and e: "effects w' = effects w @ [NewExecAllocator (fresh w), NewContext (Suc (fresh w)) (fresh w),
            ListenTarget (Suc (fresh w)), BrowserCancel (Suc (fresh w)), AllocCancel (fresh w)]"
    by (simp_all add: w'_def)
  have t: "the (runViewport st) = err" using v by simp
  note n = GetBrowserContext_fresh_startup [OF assms(1), where st = st2 and w = w']
  show ?thesis
    unfolding g prod.case None option.case t using c f e n by blast
qed

text \<open>
  C2 as stated asks that both cancel functions of the failed attempt are called. On a new
  manager whose browser does not start, the browser context 1 is created and its cancel
  function is never called: the trace ends with the allocator's cancel.
\<close>

theorem startup_failure_browser_cancel_not_called:
  "GetBrowserContext \<lparr>runStart = Some ''exec: chromium: not found'', runViewport = None\<rparr>
     (NewBrowseTools 0 0 \<lparr>fresh = 0, effects = []\<rparr> :: nat state) =
   (Inl ''failed to start browser (please apt get chromium or equivalent): exec: chromium: not found'',
    fst (NewBrowseTools 0 0 \<lparr>fresh = 0, effects = []\<rparr> :: nat state),
    \<lparr>fresh = 2,
     effects = [MkdirAll ''/tmp/shelley-screenshots'', NewExecAllocator 0, NewContext 1 0,
                ListenTarget 1, AllocCancel 0]\<rparr>) \<and>
   BrowserCancel 1 \<notin> set (effects (snd (snd
     (GetBrowserContext \<lparr>runStart = Some ''exec: chromium: not found'', runViewport = None\<rparr>
        (NewBrowseTools 0 0 \<lparr>fresh = 0, effects = []\<rparr> :: nat state)))))"
  by (simp add: GetBrowserContext_def NewBrowseTools_def alloc_def emit_def Let_def ScreenshotDir_def)

theorem startup_failure_rollback_witness:
  "snd (GetBrowserContext \<lparr>runStart = None, runViewport = Some ''context deadline exceeded''\<rparr>
     (NewBrowseTools 0 0 \<lparr>fresh = 0, effects = []\<rparr> :: nat state)) = 
    (fst (NewBrowseTools 0 0 \<lparr>fresh = 0, effects = []\<rparr> :: nat state),
    \<lparr>fresh = 2,
     effects = [MkdirAll ''/tmp/shelley-screenshots'', NewExecAllocator 0, NewContext 1 0,
                ListenTarget 1, BrowserCancel 1, AllocCancel 0]\<rparr>) \<and>
   fst (GetBrowserContext \<lparr>runStart = None, runViewport = None\<rparr>
     (snd (GetBrowserContext \<lparr>runStart = None, runViewport = Some ''context deadline exceeded''\<rparr>
       (NewBrowseTools 0 0 \<lparr>fresh = 0, effects = []\<rparr> :: nat state)))) = Inr 3"
  using startup_failure_rollback [of "fst (NewBrowseTools 0 0 \<lparr>fresh = 0, effects = []\<rparr> :: nat state)"
     "\<lparr>runStart = None, runViewport = Some ''context deadline exceeded''\<rparr>"
     "snd (NewBrowseTools 0 0 \<lparr>fresh = 0, effects = []\<rparr> :: nat state)"
     "\<lparr>runStart = None, runViewport = None\<rparr>"]
  by (simp add: NewBrowseTools_def startupFails_def emit_def ScreenshotDir_def split: prod.splits)

section \<open>Properties of the console events\<close>

lemma captureConsoleLog_keeps_last:
  assumes "0 \<le> maxConsoleLogs b"
  shows "captureConsoleLog e b =
    Inr (b\<lparr>consoleLogs := drop (Suc (length (consoleLogs b)) - nat (maxConsoleLogs b)) (consoleLogs b @ [e])\<rparr>)"
proof (cases "int (Suc (length (consoleLogs b))) > maxConsoleLogs b")
  case True
  with assms have "nat (int (Suc (length (consoleLogs b))) - maxConsoleLogs b) =
      Suc (length (consoleLogs b)) - nat (maxConsoleLogs b)"
    by linarith
  with True assms show ?thesis
    by (simp add: captureConsoleLog_def Let_def)
next
  case False
  then have "Suc (length (consoleLogs b)) - nat (maxConsoleLogs b) = 0"
    by linarith
  with False show ?thesis
    by (simp add: captureConsoleLog_def Let_def)
qed

lemma drop_snoc_step:
  assumes "length xs \<le> m"
  shows "drop (length (drop (Suc (length xs) - m) (xs @ [e])) + length es - m)
           (drop (Suc (length xs) - m) (xs @ [e]) @ es) =
         drop (length xs + length (e # es) - m) (xs @ e # es)"
proof (cases "Suc (length xs) \<le> m")
  case True
  then show ?thesis by simp
next
  case False
  with assms have m: "length xs = m" by simp
  show ?thesis
  proof (cases xs)
    case Nil
    with m show ?thesis by simp
  next
    case (Cons x xs')
    with m show ?thesis by auto
  qed
qed

lemma captureAll_keeps_last:
  assumes "0 \<le> maxConsoleLogs b" and "length (consoleLogs b) \<le> nat (maxConsoleLogs b)"
  shows "captureAll es b =
    Inr (b\<lparr>consoleLogs := drop (length (consoleLogs b) + length es - nat (maxConsoleLogs b)) (consoleLogs b @ es)\<rparr>)"
  using assms
proof (induction es arbitrary: b)
  case Nil
  then show ?case by simp
next
  case (Cons e es)
  let ?m = "nat (maxConsoleLogs b)"
  let ?b1 = "b\<lparr>consoleLogs := drop (Suc (length (consoleLogs b)) - ?m) (consoleLogs b @ [e])\<rparr>"
  have c: "captureConsoleLog e b = Inr ?b1"
    using Cons.prems(1) by (rule captureConsoleLog_keeps_last)
  have m1: "0 \<le> maxConsoleLogs ?b1" using Cons.prems(1) by simp
  have l1: "length (consoleLogs ?b1) \<le> nat (maxConsoleLogs ?b1)"
    using Cons.prems(2) by simp
  have "captureAll (e # es) b = captureAll es ?b1" by (simp add: c)
  also have "\<dots> = Inr (?b1\<lparr>consoleLogs := drop (length (consoleLogs ?b1) + length es - nat (maxConsoleLogs ?b1)) (consoleLogs ?b1 @ es)\<rparr>)"
    using m1 l1 by (rule Cons.IH)
  also have "\<dots> = Inr (b\<lparr>consoleLogs := drop (length (consoleLogs b) + length (e # es) - ?m) (consoleLogs b @ e # es)\<rparr>)"
    using drop_snoc_step [OF Cons.prems(2), of e es] by simp
  finally show ?case .
qed

text \<open>
  C3. On a manager with the capacity of 100 that \<^verbatim>\<open>NewBrowseTools\<close> sets and at most 100
  stored events, capturing any sequence of events does not panic and leaves the last 100
  of the stored and the new events, in arrival order, so never more than 100. Capturing
  one event at capacity drops exactly the oldest one. After 100 + K new events the store
  holds the last 100 of them.
\<close>

theorem console_ring:
  assumes "maxConsoleLogs b = 100" and "length (consoleLogs b) \<le> 100"
  shows "captureAll es b =
           Inr (b\<lparr>consoleLogs := drop (length (consoleLogs b @ es) - 100) (consoleLogs b @ es)\<rparr>) \<and>
         length (drop (length (consoleLogs b @ es) - 100) (consoleLogs b @ es)) \<le> 100 \<and>
         (length (consoleLogs b) = 100 \<longrightarrow>
            captureConsoleLog e b = Inr (b\<lparr>consoleLogs := tl (consoleLogs b) @ [e]\<rparr>)) \<and>
         (length es = 100 + K \<longrightarrow>
            captureAll es b = Inr (b\<lparr>consoleLogs := drop K es\<rparr>) \<and> length (drop K es) = 100)"
proof -
  have m: "0 \<le> maxConsoleLogs b" and n: "nat (maxConsoleLogs b) = 100"
    using assms(1) by simp_all
  have l: "length (consoleLogs b) \<le> nat (maxConsoleLogs b)"
    using assms(2) n by simp
  have all: "captureAll es b =
      Inr (b\<lparr>consoleLogs := drop (length (consoleLogs b @ es) - 100) (consoleLogs b @ es)\<rparr>)"
    using captureAll_keeps_last [OF m l, of es] n by simp
  have len: "length (drop (length (consoleLogs b @ es) - 100) (consoleLogs b @ es)) \<le> 100"
    by simp
  have one: "captureConsoleLog e b = Inr (b\<lparr>consoleLogs := tl (consoleLogs b) @ [e]\<rparr>)"
    if "length (consoleLogs b) = 100"
  proof -
    from that have "consoleLogs b \<noteq> []" by auto
    then have "drop (Suc 0) (consoleLogs b @ [e]) = tl (consoleLogs b) @ [e]"
      by (cases "consoleLogs b") simp_all
    then show ?thesis
      using captureConsoleLog_keeps_last [OF m, of e] n that by simp
  qed
  have many: "captureAll es b = Inr (b\<lparr>consoleLogs := drop K es\<rparr>) \<and> length (drop K es) = 100"
    if "length es = 100 + K"
  proof -
    from that have "drop (length (consoleLogs b @ es) - 100) (consoleLogs b @ es) = drop K es"
      by simp
    with all that show ?thesis by simp
  qed
  from all len one many show ?thesis by blast
qed


theorem console_ring_witness:
  "captureAll (replicate 100 (1::nat) @ [2, 3])
     ((fst (NewBrowseTools 0 0 \<lparr>fresh = 0, effects = []\<rparr>))\<lparr>consoleLogs := replicate 100 0\<rparr>) =
   Inr ((fst (NewBrowseTools 0 0 \<lparr>fresh = 0, effects = []\<rparr>))\<lparr>consoleLogs := replicate 98 1 @ [2, 3]\<rparr>) \<and>
   captureConsoleLog (7::nat)
     ((fst (NewBrowseTools 0 0 \<lparr>fresh = 0, effects = []\<rparr>))\<lparr>consoleLogs := replicate 100 0\<rparr>) =
   Inr ((fst (NewBrowseTools 0 0 \<lparr>fresh = 0, effects = []\<rparr>))\<lparr>consoleLogs := replicate 99 0 @ [7]\<rparr>)"
  using console_ring [of "(fst (NewBrowseTools 0 0 \<lparr>fresh = 0, effects = []\<rparr>))\<lparr>consoleLogs := replicate 100 (0::nat)\<rparr>"
      "replicate 100 (1::nat) @ [2, 3]" 7 2]
  by (simp add: NewBrowseTools_def tl_replicate)

lemma resetIdleTimerLocked_frame:
  "consoleLogs (fst (resetIdleTimerLocked (b, w))) = consoleLogs b \<and>
   screenshots (fst (resetIdleTimerLocked (b, w))) = screenshots b \<and>
   browserCtx (fst (resetIdleTimerLocked (b, w))) = browserCtx b"
  by (simp add: resetIdleTimerLocked_session)

lemma GetBrowserContext_frame:
  "consoleLogs (fst (snd (GetBrowserContext st s))) = consoleLogs (fst s) \<and>
   screenshots (fst (snd (GetBrowserContext st s))) = screenshots (fst s)"
  by (cases s)
    (simp add: GetBrowserContext_def resetIdleTimerLocked_session Let_def alloc_def
      split: option.splits prod.splits)

lemma GetBrowserContext_session:
  assumes "GetBrowserContext st s = (Inr c, s')"
  shows "browserCtx (fst s') = Some c"
  using assms
  by (cases s)
    (auto simp add: GetBrowserContext_def resetIdleTimerLocked_def Let_def alloc_def
      split: option.splits prod.splits)

lemma GetBrowserContext_reuse:
  assumes "browserCtx (fst s) = Some c"
  shows "fst (GetBrowserContext st s) = Inr c"
  using assms by (cases s) (simp add: GetBrowserContext_def)

lemma recentLogs_drop:
  assumes "0 < Limit input"
  shows "recentLogs input logs = drop (length logs - nat (Limit input)) logs"
proof (cases "int (length logs) > Limit input")
  case True
  with assms have "nat (int (length logs) - Limit input) = length logs - nat (Limit input)"
    by linarith
  with True assms show ?thesis by (simp add: recentLogs_def Let_def)
next
  case False
  then have "length logs - nat (Limit input) = 0" by linarith
  with False assms show ?thesis by (simp add: recentLogs_def Let_def)
qed

text \<open>
  C5. With a positive limit, the events that \<^verbatim>\<open>recentConsoleLogsRun\<close> copies are at most
  \<open>limit\<close> many and are a suffix of the stored sequence, so the most recent ones in their
  order; when more than \<open>limit\<close> are stored, they are exactly the events from offset
  \<open>storedCount - limit\<close> on. When the session is available and the events serialize, the
  tool returns their count and their JSON.
\<close>

theorem recent_logs_suffix:
  assumes "0 < Limit input"
  shows "length (recentLogs input logs) \<le> nat (Limit input) \<and>
         take (length logs - nat (Limit input)) logs @ recentLogs input logs = logs \<and>
         (int (length logs) > Limit input \<longrightarrow>
            recentLogs input logs = drop (nat (int (length logs) - Limit input)) logs \<and>
            length (recentLogs input logs) = nat (Limit input)) \<and>
         (\<forall>c s' j. GetBrowserContext (chromedp_startup X) s = (Inr c, s') \<and>
            json_MarshalIndent X (recentLogs input (consoleLogs (fst s))) = Inr j \<longrightarrow>
            recentConsoleLogsRun X (Inr input) s =
              (ToolOut
                 [Text (''Retrieved '' @ Itoa (length (recentLogs input (consoleLogs (fst s)))) @
                        '' console log entries:'' @ [CHR 0x0A, CHR 0x0A] @
                        (if length (recentLogs input (consoleLogs (fst s))) = 0
                         then ''No console logs captured.'' else j))]
                 None,
               s'))"
proof -
  have d: "recentLogs input logs = drop (length logs - nat (Limit input)) logs"
    using assms by (rule recentLogs_drop)
  have a: "length (recentLogs input logs) \<le> nat (Limit input)"
    unfolding d by simp
  have b: "take (length logs - nat (Limit input)) logs @ recentLogs input logs = logs"
    unfolding d by simp
  have c: "recentLogs input logs = drop (nat (int (length logs) - Limit input)) logs \<and>
           length (recentLogs input logs) = nat (Limit input)"
    if "int (length logs) > Limit input"
  proof -
    from that assms have "nat (int (length logs) - Limit input) = length logs - nat (Limit input)"
      and "nat (Limit input) \<le> length logs"
      by linarith+
    then show ?thesis unfolding d by simp
  qed
  have r: "recentConsoleLogsRun X (Inr input) s =
              (ToolOut
                 [Text (''Retrieved '' @ Itoa (length (recentLogs input (consoleLogs (fst s)))) @
                        '' console log entries:'' @ [CHR 0x0A, CHR 0x0A] @
                        (if length (recentLogs input (consoleLogs (fst s))) = 0
                         then ''No console logs captured.'' else j))]
                 None,
               s')"
    if g: "GetBrowserContext (chromedp_startup X) s = (Inr c, s')"
      and j: "json_MarshalIndent X (recentLogs input (consoleLogs (fst s))) = Inr j"
    for c s' j
  proof -
    have "consoleLogs (fst s') = consoleLogs (fst s)"
      using GetBrowserContext_frame [of "chromedp_startup X" s] g by simp
    with g j show ?thesis
      by (simp add: recentConsoleLogsRun_def Let_def)
  qed
  from a b c r show ?thesis by blast
qed

text \<open>
  C6. When the session is available, \<^verbatim>\<open>clearConsoleLogsRun\<close> reports the number of events
  that were stored when it was called and leaves the stored sequence empty; reading the
  events afterwards finds none.
\<close>

theorem clear_exact:
  assumes "GetBrowserContext (chromedp_startup X) s = (Inr c, s')"
  shows "clearConsoleLogsRun X (Inr ()) s =
           (ToolOut [Text (''Cleared '' @ Itoa (length (consoleLogs (fst s))) @
                           '' console log entries.'')] None,
            ((fst s')\<lparr>consoleLogs := []\<rparr>, snd s')) \<and>
         consoleLogs (fst (snd (clearConsoleLogsRun X (Inr ()) s))) = [] \<and>
         recentLogs input (consoleLogs (fst (snd (clearConsoleLogsRun X (Inr ()) s)))) = [] \<and>
         (\<forall>j. json_MarshalIndent X2 [] = Inr j \<longrightarrow>
              fst (recentConsoleLogsRun X2 (Inr input) (snd (clearConsoleLogsRun X (Inr ()) s))) =
                ToolOut [Text (''Retrieved 0 console log entries:'' @ [CHR 0x0A, CHR 0x0A] @
                               ''No console logs captured.'')] None)"
proof -
  have l: "consoleLogs (fst s') = consoleLogs (fst s)"
    using GetBrowserContext_frame [of "chromedp_startup X" s] assms by simp
  have run: "clearConsoleLogsRun X (Inr ()) s =
           (ToolOut [Text (''Cleared '' @ Itoa (length (consoleLogs (fst s))) @
                           '' console log entries.'')] None,
            ((fst s')\<lparr>consoleLogs := []\<rparr>, snd s'))"
    using assms l by (cases s') (simp add: clearConsoleLogsRun_def Let_def)
  define s2 where "s2 = ((fst s')\<lparr>consoleLogs := []\<rparr>, snd s')"
  have e: "consoleLogs (fst s2) = []" by (simp add: s2_def)
  have r: "recentLogs input [] = []" by (simp add: recentLogs_def Let_def)
  have b: "browserCtx (fst s2) = Some c"
    using GetBrowserContext_session [OF assms] by (simp add: s2_def)
  have next_run: "fst (recentConsoleLogsRun X2 (Inr input) s2) =
      ToolOut [Text (''Retrieved 0 console log entries:'' @ [CHR 0x0A, CHR 0x0A] @
                               ''No console logs captured.'')] None"
    if j: "json_MarshalIndent X2 [] = Inr j" for j
  proof -
    obtain r2 s3 where g2: "GetBrowserContext (chromedp_startup X2) s2 = (r2, s3)"
      by (cases "GetBrowserContext (chromedp_startup X2) s2")
    have r2: "r2 = Inr c"
      using GetBrowserContext_reuse [OF b, of "chromedp_startup X2"] g2 by simp
    have "consoleLogs (fst s3) = []"
      using GetBrowserContext_frame [of "chromedp_startup X2" s2] g2 e by simp
    then have e3: "recentLogs input (consoleLogs (fst s3)) = []"
      using r by simp
    show ?thesis
      by (simp add: recentConsoleLogsRun_def Let_def g2 r2 e3 j digit_def)
  qed
  have A: "consoleLogs (fst (snd (clearConsoleLogsRun X (Inr ()) s))) = []"
    unfolding run by simp
  have B: "recentLogs input (consoleLogs (fst (snd (clearConsoleLogsRun X (Inr ()) s)))) = []"
    unfolding A by (rule r)
  have C: "\<forall>j. json_MarshalIndent X2 [] = Inr j \<longrightarrow>
              fst (recentConsoleLogsRun X2 (Inr input) (snd (clearConsoleLogsRun X (Inr ()) s))) =
                ToolOut [Text (''Retrieved 0 console log entries:'' @ [CHR 0x0A, CHR 0x0A] @
                               ''No console logs captured.'')] None"
    unfolding run using next_run by (simp add: s2_def)
  from run A B C show ?thesis by blast
qed

theorem recent_logs_suffix_witness:
  "recentLogs \<lparr>Limit = 2\<rparr> [4, 5, 6 :: nat] = [5, 6] \<and>
   fst (recentConsoleLogsRun sampleExt (Inr \<lparr>Limit = 2\<rparr>)
         ((fst (NewBrowseTools 0 0 world0))\<lparr>consoleLogs := [4, 5, 6]\<rparr>, world0)) =
     ToolOut [Text (''Retrieved 2 console log entries:'' @ [CHR 0x0A, CHR 0x0A] @ ''5 6 '')] None"
  using recent_logs_suffix [of "\<lparr>Limit = 2\<rparr>" "[4, 5, 6 :: nat]" sampleExt
      "((fst (NewBrowseTools 0 0 world0))\<lparr>consoleLogs := [4, 5, 6]\<rparr>, world0)"]
  by (simp add: recentLogs_def sampleExt_def NewBrowseTools_def world0_def GetBrowserContext_def
      resetIdleTimerLocked_def alloc_def emit_def Let_def digit_def)

theorem clear_exact_witness:
  "clearConsoleLogsRun sampleExt (Inr ())
     ((fst (NewBrowseTools 0 0 world0))\<lparr>consoleLogs := [4, 5, 6]\<rparr>, world0) =
   (ToolOut [Text ''Cleared 3 console log entries.''] None,
    (fst (NewBrowseTools 0 0 world0))\<lparr>allocCtx := Some 0, allocCancel := Some 0,
       browserCtx := Some 1, browserCtxCancel := Some 1, idleTimer := Some 2\<rparr>,
    \<lparr>fresh = 3,
     effects = [NewExecAllocator 0, NewContext 1 0, ListenTarget 1, AfterFunc 2 DefaultIdleTimeout]\<rparr>)"
  using clear_exact [of sampleExt
      "((fst (NewBrowseTools 0 0 world0))\<lparr>consoleLogs := [4, 5, 6]\<rparr>, world0)" 1
      "snd (GetBrowserContext (chromedp_startup sampleExt) ((fst (NewBrowseTools 0 0 world0))\<lparr>consoleLogs := [4, 5, 6]\<rparr>, world0))"
      "\<lparr>Limit = 2\<rparr>" sampleExt]
  by (simp add: sampleExt_def NewBrowseTools_def world0_def GetBrowserContext_def
      resetIdleTimerLocked_def alloc_def emit_def Let_def digit_def)

section \<open>Properties of the tools\<close>

text \<open>
  C8. A timeout string that \<^verbatim>\<open>time.ParseDuration\<close> rejects, the empty string among them,
  gives the default of 15 seconds and no error; a string that parses gives the parsed
  duration.
\<close>

theorem parse_timeout_default:
  "(\<forall>err. ParseDuration timeout = Inl err \<longrightarrow>
      parseTimeout ParseDuration timeout = 15 * Second) \<and>
   (\<forall>err. ParseDuration [] = Inl err \<longrightarrow> parseTimeout ParseDuration [] = 15 * Second) \<and>
   (\<forall>dur. ParseDuration timeout = Inr dur \<longrightarrow> parseTimeout ParseDuration timeout = dur) \<and>
   15 * Second = 15000000000"
  by (simp add: parseTimeout_def Second_def)

theorem parse_timeout_default_witness:
  "parseTimeout (time_ParseDuration sampleExt) ''soon'' = 15000000000 \<and>
   parseTimeout (time_ParseDuration sampleExt) [] = 15000000000 \<and>
   parseTimeout (time_ParseDuration sampleExt) ''2m'' = 120000000000"
  using parse_timeout_default [of "time_ParseDuration sampleExt" "''soon''"]
    parse_timeout_default [of "time_ParseDuration sampleExt" "''2m''"]
  by (simp add: sampleExt_def Second_def Minute_def)

lemma navigateRun_accepted:
  assumes "\<not> isPort80 (url_Parse X) (URL input)"
  shows "navigateRun X (Inr input) s =
    (case GetBrowserContext (chromedp_startup X) s of
       (Inl err, s') \<Rightarrow> (ErrorToolOut err, s')
     | (Inr ctx, s') \<Rightarrow>
         (case chromedp_Navigate X ctx
                 (parseTimeout (time_ParseDuration X) (navigateInput.Timeout input)) (URL input) of
            Some err \<Rightarrow> (ErrorToolOut err, s')
          | None \<Rightarrow> (ToolOut [Text ''done''] None, s')))"
  using assms by (simp add: navigateRun_def)

lemma navigateRun_accepted_state:
  assumes "\<not> isPort80 (url_Parse X) (URL input)"
  shows "snd (navigateRun X (Inr input) s) = snd (GetBrowserContext (chromedp_startup X) s)"
  unfolding navigateRun_accepted [OF assms]
  by (simp split: prod.splits sum.splits option.splits)

text \<open>
  C4. A URL that parses with port 80, or with the scheme http and no port, is refused by
  \<^verbatim>\<open>navigateRun\<close> with the manager and the world untouched: no context is created and
  \<^verbatim>\<open>GetBrowserContext\<close> is not reached. A URL that parses with another explicit port passes
  the check, and the tool goes on to \<^verbatim>\<open>GetBrowserContext\<close>.
\<close>

theorem navigate_rejects_port_80:
  "(\<forall>u. url_Parse X (URL input) = Inr u \<and>
        (Port u = ''80'' \<or> (Port u = [] \<and> Scheme u = ''http'')) \<longrightarrow>
      isPort80 (url_Parse X) (URL input) \<and>
      navigateRun X (Inr input) s = (ErrorToolOut port80Error, s)) \<and>
   (\<forall>u. url_Parse X (URL input) = Inr u \<and> Port u \<noteq> ''80'' \<and> Port u \<noteq> [] \<longrightarrow>
      \<not> isPort80 (url_Parse X) (URL input) \<and>
      snd (navigateRun X (Inr input) s) = snd (GetBrowserContext (chromedp_startup X) s))"
proof (intro conjI allI impI)
  fix u
  assume a: "url_Parse X (URL input) = Inr u \<and> (Port u = ''80'' \<or> (Port u = [] \<and> Scheme u = ''http''))"
  then show p: "isPort80 (url_Parse X) (URL input)"
    by (auto simp add: isPort80_def)
  then show "navigateRun X (Inr input) s = (ErrorToolOut port80Error, s)"
    by (simp add: navigateRun_def)
next
  fix u
  assume a: "url_Parse X (URL input) = Inr u \<and> Port u \<noteq> ''80'' \<and> Port u \<noteq> []"
  then show n: "\<not> isPort80 (url_Parse X) (URL input)"
    by (simp add: isPort80_def)
  then show "snd (navigateRun X (Inr input) s) = snd (GetBrowserContext (chromedp_startup X) s)"
    by (rule navigateRun_accepted_state)
qed

theorem navigate_rejects_port_80_witness:
  "navigateRun sampleExt (Inr \<lparr>URL = ''http://host'', Timeout = []\<rparr>) (NewBrowseTools 0 0 world0) =
     (ErrorToolOut port80Error, NewBrowseTools 0 0 world0) \<and>
   navigateRun sampleExt (Inr \<lparr>URL = ''http://host:80/index.html'', Timeout = []\<rparr>)
       (NewBrowseTools 0 0 world0) =
     (ErrorToolOut port80Error, NewBrowseTools 0 0 world0) \<and>
   browserCtx (fst (snd (navigateRun sampleExt (Inr \<lparr>URL = ''http://host:8080'', Timeout = []\<rparr>)
       (NewBrowseTools 0 0 world0)))) = Some 1"
  using navigate_rejects_port_80 [of sampleExt "\<lparr>URL = ''http://host'', Timeout = []\<rparr>" "NewBrowseTools 0 0 world0"]
    navigate_rejects_port_80 [of sampleExt "\<lparr>URL = ''http://host:80/index.html'', Timeout = []\<rparr>" "NewBrowseTools 0 0 world0"]
    navigate_rejects_port_80 [of sampleExt "\<lparr>URL = ''http://host:8080'', Timeout = []\<rparr>" "NewBrowseTools 0 0 world0"]
  by (simp add: sampleExt_def NewBrowseTools_def world0_def GetBrowserContext_def
      resetIdleTimerLocked_def alloc_def emit_def Let_def)

text \<open>
  C10. When \<^verbatim>\<open>url.Parse\<close> fails, \<^verbatim>\<open>isPort80\<close> is false, and so it is for an https URL without
  a port: \<^verbatim>\<open>navigateRun\<close> does not refuse the URL at the port check but goes on to
  \<^verbatim>\<open>GetBrowserContext\<close> and, with a session, to the navigation.
\<close>

theorem navigate_unparsed_url_passes:
  "(\<forall>err. url_Parse X (URL input) = Inl err \<longrightarrow>
      \<not> isPort80 (url_Parse X) (URL input) \<and>
      navigateRun X (Inr input) s =
        (case GetBrowserContext (chromedp_startup X) s of
           (Inl e, s') \<Rightarrow> (ErrorToolOut e, s')
         | (Inr ctx, s') \<Rightarrow>
             (case chromedp_Navigate X ctx
                     (parseTimeout (time_ParseDuration X) (navigateInput.Timeout input)) (URL input) of
                Some e \<Rightarrow> (ErrorToolOut e, s')
              | None \<Rightarrow> (ToolOut [Text ''done''] None, s')))) \<and>
   (\<forall>u. url_Parse X (URL input) = Inr u \<and> Scheme u = ''https'' \<and> Port u = [] \<longrightarrow>
      \<not> isPort80 (url_Parse X) (URL input) \<and>
      navigateRun X (Inr input) s =
        (case GetBrowserContext (chromedp_startup X) s of
           (Inl e, s') \<Rightarrow> (ErrorToolOut e, s')
         | (Inr ctx, s') \<Rightarrow>
             (case chromedp_Navigate X ctx
                     (parseTimeout (time_ParseDuration X) (navigateInput.Timeout input)) (URL input) of
                Some e \<Rightarrow> (ErrorToolOut e, s')
              | None \<Rightarrow> (ToolOut [Text ''done''] None, s'))))"
proof (intro conjI allI impI)
  fix err
  assume "url_Parse X (URL input) = Inl err"
  then show n: "\<not> isPort80 (url_Parse X) (URL input)"
    by (simp add: isPort80_def)
  then show "navigateRun X (Inr input) s =
        (case GetBrowserContext (chromedp_startup X) s of
           (Inl e, s') \<Rightarrow> (ErrorToolOut e, s')
         | (Inr ctx, s') \<Rightarrow>
             (case chromedp_Navigate X ctx
                     (parseTimeout (time_ParseDuration X) (navigateInput.Timeout input)) (URL input) of
                Some e \<Rightarrow> (ErrorToolOut e, s')
              | None \<Rightarrow> (ToolOut [Text ''done''] None, s')))"
    by (rule navigateRun_accepted)
next
  fix u
  assume "url_Parse X (URL input) = Inr u \<and> Scheme u = ''https'' \<and> Port u = []"
  then show n: "\<not> isPort80 (url_Parse X) (URL input)"
    by (simp add: isPort80_def)
  then show "navigateRun X (Inr input) s =
        (case GetBrowserContext (chromedp_startup X) s of
           (Inl e, s') \<Rightarrow> (ErrorToolOut e, s')
         | (Inr ctx, s') \<Rightarrow>
             (case chromedp_Navigate X ctx
                     (parseTimeout (time_ParseDuration X) (navigateInput.Timeout input)) (URL input) of
                Some e \<Rightarrow> (ErrorToolOut e, s')
              | None \<Rightarrow> (ToolOut [Text ''done''] None, s')))"
    by (rule navigateRun_accepted)
qed

theorem navigate_unparsed_url_passes_witness:
  "navigateRun sampleExt (Inr \<lparr>URL = ''http://host:eighty'', Timeout = []\<rparr>) (NewBrowseTools 0 0 world0) =
     (ToolOut [Text ''done''] None,
      snd (GetBrowserContext \<lparr>runStart = None, runViewport = None\<rparr> (NewBrowseTools 0 0 world0))) \<and>
   navigateRun sampleExt (Inr \<lparr>URL = ''https://host'', Timeout = []\<rparr>) (NewBrowseTools 0 0 world0) =
     (ToolOut [Text ''done''] None,
      snd (GetBrowserContext \<lparr>runStart = None, runViewport = None\<rparr> (NewBrowseTools 0 0 world0))) \<and>
   browserCtx (fst (snd (GetBrowserContext \<lparr>runStart = None, runViewport = None\<rparr>
      (NewBrowseTools 0 0 world0 :: nat state)))) = Some 1"
  using navigate_unparsed_url_passes [of sampleExt "\<lparr>URL = ''http://host:eighty'', Timeout = []\<rparr>" "NewBrowseTools 0 0 world0"]
    navigate_unparsed_url_passes [of sampleExt "\<lparr>URL = ''https://host'', Timeout = []\<rparr>" "NewBrowseTools 0 0 world0"]
  by (simp add: sampleExt_def NewBrowseTools_def world0_def GetBrowserContext_def
      resetIdleTimerLocked_def alloc_def emit_def Let_def)

text \<open>
  C7. Given that the generated identifier is not empty (a UUID in its canonical form
  never is), \<^verbatim>\<open>SaveScreenshot\<close> returns the empty string exactly when \<^verbatim>\<open>os.WriteFile\<close> fails.
  In that case the manager, its screenshot registry included, is as it was. When the
  file is written, the identifier is recorded with the current time and returned. In
  \<^verbatim>\<open>screenshotRun\<close>, an empty identifier after a capture becomes the tool error
  "failed to save screenshot".
\<close>

theorem save_screenshot_empty_iff_write_fails:
  assumes "uuid_New X \<noteq> []"
  shows
    "(fst (SaveScreenshot X data (b, w)) = [] \<longleftrightarrow>
        os_WriteFile X (filepath_Join X ScreenshotDir (uuid_New X @ ''.png'')) data \<noteq> None) \<and>
     (os_WriteFile X (filepath_Join X ScreenshotDir (uuid_New X @ ''.png'')) data \<noteq> None \<longrightarrow>
        SaveScreenshot X data (b, w) =
          ([], (b, emit (WriteFile (filepath_Join X ScreenshotDir (uuid_New X @ ''.png'')) data) w)) \<and>
        screenshots (fst (snd (SaveScreenshot X data (b, w)))) = screenshots b) \<and>
     (os_WriteFile X (filepath_Join X ScreenshotDir (uuid_New X @ ''.png'')) data = None \<longrightarrow>
        SaveScreenshot X data (b, w) =
          (uuid_New X,
           (b\<lparr>screenshots := (screenshots b)(uuid_New X \<mapsto> time_Now X)\<rparr>,
            emit (WriteFile (filepath_Join X ScreenshotDir (uuid_New X @ ''.png'')) data) w))) \<and>
     (\<forall>ctx s1 buf.
        GetBrowserContext (chromedp_startup X) s = (Inr ctx, s1) \<and>
        (if Selector input \<noteq> []
         then chromedp_Screenshot X ctx
                (parseTimeout (time_ParseDuration X) (screenshotInput.Timeout input)) (Selector input)
         else chromedp_CaptureScreenshot X ctx
                (parseTimeout (time_ParseDuration X) (screenshotInput.Timeout input))) = Inr buf \<and>
        fst (SaveScreenshot X buf s1) = [] \<longrightarrow>
        screenshotRun X (Inr input) s =
          (ErrorToolOut ''failed to save screenshot'', snd (SaveScreenshot X buf s1)))"
proof (intro conjI allI impI)
  show "fst (SaveScreenshot X data (b, w)) = [] \<longleftrightarrow>
        os_WriteFile X (filepath_Join X ScreenshotDir (uuid_New X @ ''.png'')) data \<noteq> None"
    using assms by (simp add: SaveScreenshot_def Let_def split: option.splits)
next
  assume f: "os_WriteFile X (filepath_Join X ScreenshotDir (uuid_New X @ ''.png'')) data \<noteq> None"
  then show r: "SaveScreenshot X data (b, w) =
          ([], (b, emit (WriteFile (filepath_Join X ScreenshotDir (uuid_New X @ ''.png'')) data) w))"
    by (auto simp add: SaveScreenshot_def Let_def)
  show "screenshots (fst (snd (SaveScreenshot X data (b, w)))) = screenshots b"
    unfolding r by simp
next
  assume "os_WriteFile X (filepath_Join X ScreenshotDir (uuid_New X @ ''.png'')) data = None"
  then show "SaveScreenshot X data (b, w) =
          (uuid_New X,
           (b\<lparr>screenshots := (screenshots b)(uuid_New X \<mapsto> time_Now X)\<rparr>,
            emit (WriteFile (filepath_Join X ScreenshotDir (uuid_New X @ ''.png'')) data) w))"
    by (simp add: SaveScreenshot_def Let_def)
next
  fix ctx s1 buf
  assume a: "GetBrowserContext (chromedp_startup X) s = (Inr ctx, s1) \<and>
        (if Selector input \<noteq> []
         then chromedp_Screenshot X ctx
                (parseTimeout (time_ParseDuration X) (screenshotInput.Timeout input)) (Selector input)
         else chromedp_CaptureScreenshot X ctx
                (parseTimeout (time_ParseDuration X) (screenshotInput.Timeout input))) = Inr buf \<and>
        fst (SaveScreenshot X buf s1) = []"
  obtain i s2 where sv: "SaveScreenshot X buf s1 = (i, s2)"
    by (cases "SaveScreenshot X buf s1")
  with a have i: "i = []" by simp
  from a sv i show "screenshotRun X (Inr input) s =
          (ErrorToolOut ''failed to save screenshot'', snd (SaveScreenshot X buf s1))"
    by (simp add: screenshotRun_def Let_def)
qed


theorem save_screenshot_empty_iff_write_fails_witness:
  "SaveScreenshot (sampleExt\<lparr>os_WriteFile := (\<lambda>path data. Some ''no space left on device'')\<rparr>)
      ''PNG'' (NewBrowseTools 0 0 world0) =
     ([], fst (NewBrowseTools 0 0 world0),
      \<lparr>fresh = 0,
       effects = [MkdirAll ''/tmp/shelley-screenshots'',
         WriteFile ''/tmp/shelley-screenshots/123e4567-e89b-12d3-a456-426614174000.png'' ''PNG'']\<rparr>) \<and>
   fst (SaveScreenshot sampleExt ''PNG'' (NewBrowseTools 0 0 world0)) =
     ''123e4567-e89b-12d3-a456-426614174000'' \<and>
   screenshots (fst (snd (SaveScreenshot sampleExt ''PNG'' (NewBrowseTools 0 0 world0))))
     ''123e4567-e89b-12d3-a456-426614174000'' = Some 1700000000 \<and>
   fst (screenshotRun (sampleExt\<lparr>os_WriteFile := (\<lambda>path data. Some ''no space left on device'')\<rparr>)
      (Inr \<lparr>Selector = [], Timeout = []\<rparr>) (NewBrowseTools 0 0 world0)) =
     ErrorToolOut ''failed to save screenshot''"
  using save_screenshot_empty_iff_write_fails
      [of "sampleExt\<lparr>os_WriteFile := (\<lambda>path data. Some ''no space left on device'')\<rparr>"
          "''PNG''" "fst (NewBrowseTools 0 0 world0)" "snd (NewBrowseTools 0 0 world0)"
          "NewBrowseTools 0 0 world0" "\<lparr>Selector = [], Timeout = []\<rparr>"]
    save_screenshot_empty_iff_write_fails
      [of sampleExt "''PNG''" "fst (NewBrowseTools 0 0 world0)" "snd (NewBrowseTools 0 0 world0)"
          "NewBrowseTools 0 0 world0" "\<lparr>Selector = [], Timeout = []\<rparr>"]
  by (simp add: sampleExt_def NewBrowseTools_def world0_def GetBrowserContext_def
      resetIdleTimerLocked_def alloc_def emit_def Let_def SaveScreenshot_def screenshotRun_def
      ScreenshotDir_def parseTimeout_def)

end
